theory Spec2Isabelle
  imports Main "HOL-Library.Word"
begin

section \<open>SimplePTN: Places, Transitions and the PetriNet\<close>

text \<open>
  The engine of \<^verbatim>\<open>place.hpp\<close>, \<^verbatim>\<open>transition.hpp\<close> and \<^verbatim>\<open>petri_net.hpp\<close>, instantiated as
  the library's defaults do: \<^verbatim>\<open>ID = std::string\<close>, \<^verbatim>\<open>TokenCounter = uint32_t\<close>.

  Places and Transitions are heap objects shared through \<^verbatim>\<open>std::shared_ptr\<close>: a Transition
  points to its Places and a Place points back to its Transitions. The model keeps one
  heap of Place objects and one of Transition objects, addressed by pointers (natural
  numbers); a function of the source that mutates an object takes the heap and returns
  the new one.

  The model is sequential: the net's \<^verbatim>\<open>shared_mutex\<close> is not represented. A change listener
  is an opaque callback, named by a handle; calling it appends one entry to the heap's
  trace \<open>notified\<close> and does nothing else. An auto-fire predicate is a pure function of
  what the \<^verbatim>\<open>const Transition &\<close> it receives lets it observe: the id and \<^verbatim>\<open>ready()\<close>.
\<close>

subsection \<open>Data\<close>

type_synonym ID = string
type_synonym TokenCounter = "32 word"
type_synonym place_ptr = nat
type_synonym transition_ptr = nat
type_synonym listener = nat
type_synonym condition = "ID \<Rightarrow> bool \<Rightarrow> bool"
type_synonym WeightPairT = "place_ptr \<times> TokenCounter"
type_synonym SketchWeightPairT = "ID \<times> TokenCounter"

record Place =
  Place_id :: ID
  Place_tokens :: TokenCounter
  Place_on_change :: "listener option"
  Place_outgoing_to :: "transition_ptr list"
  Place_ingoing_to :: "transition_ptr list"

record Transition =
  Transition_id :: ID
  Transition_ingoing :: "WeightPairT list"
  Transition_outgoing :: "WeightPairT list"
  Transition_evaluate_condition :: "condition option"

text \<open>One invocation of a change listener: which callback, on which Place, the token
  count the Place shows at the time of the call, and the \<^verbatim>\<open>prev\<close> argument.\<close>

record call =
  call_listener :: listener
  call_place :: place_ptr
  call_tokens :: TokenCounter
  call_prev :: TokenCounter

record heap =
  place_at :: "place_ptr \<Rightarrow> Place"
  transition_at :: "transition_ptr \<Rightarrow> Transition"
  place_next :: place_ptr
  transition_next :: transition_ptr
  notified :: "call list"

record TransitionSketch =
  Sketch_id :: ID
  Sketch_ingoing :: "SketchWeightPairT list"
  Sketch_outgoing :: "SketchWeightPairT list"

text \<open>\<^verbatim>\<open>places_\<close> is a vector of shared pointers; an entry is \<open>None\<close> when the pointer is
  null, which is what \<^verbatim>\<open>std::move\<close> leaves behind in the absorbed net of a merge.\<close>

record PetriNet =
  PetriNet_places :: "place_ptr option list"
  PetriNet_transitions :: "transition_ptr list"

datatype error = invalid_argument string | runtime_error string

text \<open>How a call ends: it returns, it throws, an exception leaves a \<^verbatim>\<open>noexcept(true)\<close>
  function (\<^verbatim>\<open>std::terminate\<close>), a null pointer is dereferenced, or the bound on the
  recursion depth of the model is used up.\<close>

datatype 'a result = Returned 'a | Thrown error | Terminated | NullDeref | OutOfFuel

definition tokens :: "heap \<Rightarrow> place_ptr \<Rightarrow> TokenCounter" where
  "tokens h p = Place_tokens (place_at h p)"

definition set_tokens :: "heap \<Rightarrow> place_ptr \<Rightarrow> TokenCounter \<Rightarrow> heap" where
  "set_tokens h p v = h\<lparr>place_at := (place_at h)(p := (place_at h p)\<lparr>Place_tokens := v\<rparr>)\<rparr>"

subsection \<open>Place\<close>

text \<open>\<^verbatim>\<open>Place(id, initial_tokens)\<close>, allocated on the heap.\<close>

definition new_Place :: "heap \<Rightarrow> ID \<Rightarrow> TokenCounter \<Rightarrow> place_ptr \<times> heap" where
  "new_Place h i initial_tokens =
     (place_next h,
      h\<lparr>place_at := (place_at h)(place_next h :=
           \<lparr>Place_id = i, Place_tokens = initial_tokens, Place_on_change = None,
            Place_outgoing_to = [], Place_ingoing_to = []\<rparr>),
        place_next := Suc (place_next h)\<rparr>)"

definition Place_onChange :: "heap \<Rightarrow> place_ptr \<Rightarrow> listener option \<Rightarrow> heap" where
  "Place_onChange h p fn =
     h\<lparr>place_at := (place_at h)(p := (place_at h p)\<lparr>Place_on_change := fn\<rparr>)\<rparr>"

definition Place_changed :: "heap \<Rightarrow> place_ptr \<Rightarrow> TokenCounter \<Rightarrow> heap" where
  "Place_changed h p prev =
     (case Place_on_change (place_at h p) of
        None \<Rightarrow> h
      | Some l \<Rightarrow> h\<lparr>notified := notified h @
          [\<lparr>call_listener = l, call_place = p, call_tokens = tokens h p, call_prev = prev\<rparr>]\<rparr>)"

subsection \<open>Transition\<close>

definition new_Transition ::
  "heap \<Rightarrow> ID \<Rightarrow> WeightPairT list \<Rightarrow> WeightPairT list \<Rightarrow> transition_ptr \<times> heap" where
  "new_Transition h i ingoing outgoing =
     (transition_next h,
      h\<lparr>transition_at := (transition_at h)(transition_next h :=
           \<lparr>Transition_id = i, Transition_ingoing = ingoing, Transition_outgoing = outgoing,
            Transition_evaluate_condition = None\<rparr>),
        transition_next := Suc (transition_next h)\<rparr>)"

fun readyAcquired_loop :: "heap \<Rightarrow> WeightPairT list \<Rightarrow> bool" where
  "readyAcquired_loop h [] = True"
| "readyAcquired_loop h ((place, weight) # rest) =
     (if tokens h place < weight then False else readyAcquired_loop h rest)"

definition readyAcquired :: "heap \<Rightarrow> transition_ptr \<Rightarrow> bool" where
  "readyAcquired h t = readyAcquired_loop h (Transition_ingoing (transition_at h t))"

definition ready :: "heap \<Rightarrow> transition_ptr \<Rightarrow> bool" where
  "ready h t = readyAcquired h t"

text \<open>The two loops of \<^verbatim>\<open>fire()\<close> that run under the lock: each pair pushes the Place and
  its current count on \<^verbatim>\<open>places_to_notify\<close>, then changes the count.\<close>

fun fire_ingoing ::
  "heap \<Rightarrow> WeightPairT list \<Rightarrow> (place_ptr \<times> TokenCounter) list
     \<Rightarrow> heap \<times> (place_ptr \<times> TokenCounter) list" where
  "fire_ingoing h [] places_to_notify = (h, places_to_notify)"
| "fire_ingoing h ((place, weight) # rest) places_to_notify =
     fire_ingoing (set_tokens h place (tokens h place - weight)) rest
       (places_to_notify @ [(place, tokens h place)])"

fun fire_outgoing ::
  "heap \<Rightarrow> WeightPairT list \<Rightarrow> (place_ptr \<times> TokenCounter) list
     \<Rightarrow> heap \<times> (place_ptr \<times> TokenCounter) list" where
  "fire_outgoing h [] places_to_notify = (h, places_to_notify)"
| "fire_outgoing h ((place, weight) # rest) places_to_notify =
     fire_outgoing (set_tokens h place (tokens h place + weight)) rest
       (places_to_notify @ [(place, tokens h place)])"

fun fire_notify :: "heap \<Rightarrow> (place_ptr \<times> TokenCounter) list \<Rightarrow> heap" where
  "fire_notify h [] = h"
| "fire_notify h ((place, prev) # rest) = fire_notify (Place_changed h place prev) rest"

definition fire :: "heap \<Rightarrow> transition_ptr \<Rightarrow> bool \<times> heap" where
  "fire h t =
     (let rdy = readyAcquired h t in
      if rdy then
        (let (h1, n1) = fire_ingoing h (Transition_ingoing (transition_at h t)) [];
             (h2, n2) = fire_outgoing h1 (Transition_outgoing (transition_at h1 t)) n1
         in (rdy, fire_notify h2 n2))
      else (rdy, fire_notify h []))"

definition autoFire :: "heap \<Rightarrow> transition_ptr \<Rightarrow> condition option \<Rightarrow> heap" where
  "autoFire h t evaluate_condition =
     h\<lparr>transition_at := (transition_at h)(t :=
         (transition_at h t)\<lparr>Transition_evaluate_condition := evaluate_condition\<rparr>)\<rparr>"

text \<open>\<^verbatim>\<open>autoFire()\<close> without an argument installs the predicate that is always true.\<close>

definition autoFire_always :: "heap \<Rightarrow> transition_ptr \<Rightarrow> heap" where
  "autoFire_always h t = autoFire h t (Some (\<lambda>_ _. True))"

definition tick :: "heap \<Rightarrow> transition_ptr \<Rightarrow> bool \<times> heap" where
  "tick h t =
     (case Transition_evaluate_condition (transition_at h t) of
        None \<Rightarrow> (False, h)
      | Some c \<Rightarrow>
          if c (Transition_id (transition_at h t)) (ready h t) then fire h t else (False, h))"

subsection \<open>Observing listener calls\<close>

text \<open>\<open>calls_of h n\<close> are the listener calls that the notification loop of \<^verbatim>\<open>fire()\<close>
  makes for the list \<open>n\<close> of \<^verbatim>\<open>places_to_notify\<close>; \<open>fire_calls h t\<close> is what one call of
  \<^verbatim>\<open>fire()\<close> appends to the trace.\<close>

definition calls_of :: "heap \<Rightarrow> (place_ptr \<times> TokenCounter) list \<Rightarrow> call list" where
  "calls_of h n =
     concat (map (\<lambda>(p, prev). case Place_on_change (place_at h p) of
                     None \<Rightarrow> []
                   | Some l \<Rightarrow> [\<lparr>call_listener = l, call_place = p, call_tokens = tokens h p,
                                 call_prev = prev\<rparr>]) n)"

definition fire_calls :: "heap \<Rightarrow> transition_ptr \<Rightarrow> call list" where
  "fire_calls h t = drop (length (notified h)) (notified (snd (fire h t)))"

subsection \<open>PetriNet: lookup and construction\<close>

fun findPlaceAcquired_loop :: "heap \<Rightarrow> place_ptr option list \<Rightarrow> ID \<Rightarrow> place_ptr option" where
  "findPlaceAcquired_loop h [] i = None"
| "findPlaceAcquired_loop h (None # rest) i = findPlaceAcquired_loop h rest i"
| "findPlaceAcquired_loop h (Some place # rest) i =
     (if Place_id (place_at h place) = i then Some place else findPlaceAcquired_loop h rest i)"

definition findPlaceAcquired :: "PetriNet \<Rightarrow> heap \<Rightarrow> ID \<Rightarrow> place_ptr option" where
  "findPlaceAcquired net h i = findPlaceAcquired_loop h (PetriNet_places net) i"

fun findTransitionAcquired_loop ::
  "heap \<Rightarrow> transition_ptr list \<Rightarrow> ID \<Rightarrow> transition_ptr option" where
  "findTransitionAcquired_loop h [] i = None"
| "findTransitionAcquired_loop h (transition # rest) i =
     (if Transition_id (transition_at h transition) = i then Some transition
      else findTransitionAcquired_loop h rest i)"

definition findTransitionAcquired :: "PetriNet \<Rightarrow> heap \<Rightarrow> ID \<Rightarrow> transition_ptr option" where
  "findTransitionAcquired net h i = findTransitionAcquired_loop h (PetriNet_transitions net) i"

definition findPlace :: "PetriNet \<Rightarrow> heap \<Rightarrow> ID \<Rightarrow> place_ptr option" where
  "findPlace net h i = findPlaceAcquired net h i"

definition findTransition :: "PetriNet \<Rightarrow> heap \<Rightarrow> ID \<Rightarrow> transition_ptr option" where
  "findTransition net h i = findTransitionAcquired net h i"

definition addPlaceAcquired ::
  "PetriNet \<Rightarrow> heap \<Rightarrow> ID \<Rightarrow> TokenCounter \<Rightarrow> place_ptr result \<times> PetriNet \<times> heap" where
  "addPlaceAcquired net h i initial_tokens =
     (if findPlaceAcquired net h i \<noteq> None
      then (Thrown (invalid_argument ''PlaceID already exists''), net, h)
      else (let (ptr, h1) = new_Place h i initial_tokens
            in (Returned ptr, net\<lparr>PetriNet_places := PetriNet_places net @ [Some ptr]\<rparr>, h1)))"

text \<open>The two lookup loops of \<^verbatim>\<open>addTransitionAcquired\<close>; \<open>None\<close> when a Place id of the
  sketch is not in the net.\<close>

fun resolve_pairs :: "PetriNet \<Rightarrow> heap \<Rightarrow> SketchWeightPairT list \<Rightarrow> WeightPairT list option" where
  "resolve_pairs net h [] = Some []"
| "resolve_pairs net h ((pid, weight) # rest) =
     (case findPlaceAcquired net h pid of
        None \<Rightarrow> None
      | Some place \<Rightarrow>
          (case resolve_pairs net h rest of
             None \<Rightarrow> None
           | Some pairs \<Rightarrow> Some ((place, weight) # pairs)))"

fun register_ingoing :: "heap \<Rightarrow> transition_ptr \<Rightarrow> WeightPairT list \<Rightarrow> heap" where
  "register_ingoing h ptr [] = h"
| "register_ingoing h ptr ((place, w) # rest) =
     register_ingoing
       (h\<lparr>place_at := (place_at h)(place := (place_at h place)
            \<lparr>Place_ingoing_to := Place_ingoing_to (place_at h place) @ [ptr]\<rparr>)\<rparr>) ptr rest"

fun register_outgoing :: "heap \<Rightarrow> transition_ptr \<Rightarrow> WeightPairT list \<Rightarrow> heap" where
  "register_outgoing h ptr [] = h"
| "register_outgoing h ptr ((place, w) # rest) =
     register_outgoing
       (h\<lparr>place_at := (place_at h)(place := (place_at h place)
            \<lparr>Place_outgoing_to := Place_outgoing_to (place_at h place) @ [ptr]\<rparr>)\<rparr>) ptr rest"

definition addTransitionAcquired ::
  "PetriNet \<Rightarrow> heap \<Rightarrow> TransitionSketch \<Rightarrow> transition_ptr result \<times> PetriNet \<times> heap" where
  "addTransitionAcquired net h sketch =
     (if findTransitionAcquired net h (Sketch_id sketch) \<noteq> None
      then (Thrown (invalid_argument ''TransitionID already exists''), net, h)
      else
        (case resolve_pairs net h (Sketch_ingoing sketch) of
           None \<Rightarrow> (Thrown (invalid_argument ''Sketch contains invalid IDs''), net, h)
         | Some ingoing \<Rightarrow>
             (case resolve_pairs net h (Sketch_outgoing sketch) of
                None \<Rightarrow> (Thrown (invalid_argument ''Sketch contains invalid IDs''), net, h)
              | Some outgoing \<Rightarrow>
                  (let (ptr, h1) = new_Transition h (Sketch_id sketch) ingoing outgoing;
                       net1 = net\<lparr>PetriNet_transitions := PetriNet_transitions net @ [ptr]\<rparr>;
                       h2 = register_ingoing h1 ptr (Transition_ingoing (transition_at h1 ptr));
                       h3 = register_outgoing h2 ptr (Transition_outgoing (transition_at h2 ptr))
                   in (Returned ptr, net1, h3)))))"

definition addPlace ::
  "PetriNet \<Rightarrow> heap \<Rightarrow> ID \<Rightarrow> TokenCounter \<Rightarrow> place_ptr result \<times> PetriNet \<times> heap" where
  "addPlace net h i initial_tokens = addPlaceAcquired net h i initial_tokens"

definition addTransition ::
  "PetriNet \<Rightarrow> heap \<Rightarrow> TransitionSketch \<Rightarrow> transition_ptr result \<times> PetriNet \<times> heap" where
  "addTransition net h sketch = addTransitionAcquired net h sketch"

subsection \<open>Ticks and cascades\<close>

fun PetriNet_tick_loop :: "heap \<Rightarrow> transition_ptr list \<Rightarrow> heap" where
  "PetriNet_tick_loop h [] = h"
| "PetriNet_tick_loop h (transition # rest) = PetriNet_tick_loop (snd (tick h transition)) rest"

definition PetriNet_tick :: "PetriNet \<Rightarrow> heap \<Rightarrow> heap" where
  "PetriNet_tick net h = PetriNet_tick_loop h (PetriNet_transitions net)"

text \<open>
  \<^verbatim>\<open>Place::deepTick(seen)\<close> and \<^verbatim>\<open>Transition::deepTick(seen)\<close> call each other. The set
  \<^verbatim>\<open>seen\<close> is passed by reference, so it is threaded through with the heap. The first
  argument bounds the number of nested \<^verbatim>\<open>Place::deepTick\<close> calls; when it is used up the
  result is \<open>OutOfFuel\<close>. An exception leaves every loop at once, with the heap and the
  set as they are at that moment.
\<close>

fun Place_deepTick_seen ::
      "nat \<Rightarrow> place_ptr \<Rightarrow> heap \<times> ID set \<Rightarrow> unit result \<times> heap \<times> ID set"
  and Place_deepTick_loop ::
      "nat \<Rightarrow> transition_ptr list \<Rightarrow> heap \<times> ID set \<Rightarrow> unit result \<times> heap \<times> ID set"
  and Transition_deepTick_seen ::
      "nat \<Rightarrow> transition_ptr \<Rightarrow> heap \<times> ID set \<Rightarrow> unit result \<times> heap \<times> ID set"
  and Transition_deepTick_loop ::
      "nat \<Rightarrow> WeightPairT list \<Rightarrow> heap \<times> ID set \<Rightarrow> unit result \<times> heap \<times> ID set"
where
  "Place_deepTick_seen 0 p (h, seen) = (OutOfFuel, h, seen)"
| "Place_deepTick_seen (Suc n) p (h, seen) =
     (if Place_id (place_at h p) \<in> seen
      then (Thrown (runtime_error ''Cycle detected''), h, seen)
      else
        (case Place_deepTick_loop n (Place_ingoing_to (place_at h p))
                (h, insert (Place_id (place_at h p)) seen) of
           (Returned u, h1, seen1) \<Rightarrow> (Returned (), h1, seen1 - {Place_id (place_at h1 p)})
         | (r, h1, seen1) \<Rightarrow> (r, h1, seen1)))"
| "Place_deepTick_loop n [] (h, seen) = (Returned (), h, seen)"
| "Place_deepTick_loop n (transition # rest) (h, seen) =
     (case Transition_deepTick_seen n transition (h, seen) of
        (Returned u, h1, seen1) \<Rightarrow> Place_deepTick_loop n rest (h1, seen1)
      | (r, h1, seen1) \<Rightarrow> (r, h1, seen1))"
| "Transition_deepTick_seen n t (h, seen) =
     (case tick h t of
        (True, h1) \<Rightarrow> Transition_deepTick_loop n (Transition_outgoing (transition_at h1 t)) (h1, seen)
      | (False, h1) \<Rightarrow> (Returned (), h1, seen))"
| "Transition_deepTick_loop n [] (h, seen) = (Returned (), h, seen)"
| "Transition_deepTick_loop n ((place, w) # rest) (h, seen) =
     (case Place_deepTick_seen n place (h, seen) of
        (Returned u, h1, seen1) \<Rightarrow> Transition_deepTick_loop n rest (h1, seen1)
      | (r, h1, seen1) \<Rightarrow> (r, h1, seen1))"

text \<open>The public \<^verbatim>\<open>deepTick()\<close> of a Place and of a Transition start from an empty set.\<close>

definition Place_deepTick :: "nat \<Rightarrow> place_ptr \<Rightarrow> heap \<Rightarrow> unit result \<times> heap" where
  "Place_deepTick n p h = (case Place_deepTick_seen n p (h, {}) of (r, h1, seen1) \<Rightarrow> (r, h1))"

definition Transition_deepTick :: "nat \<Rightarrow> transition_ptr \<Rightarrow> heap \<Rightarrow> unit result \<times> heap" where
  "Transition_deepTick n t h =
     (case Transition_deepTick_seen n t (h, {}) of (r, h1, seen1) \<Rightarrow> (r, h1))"

definition PetriNet_deepTick :: "nat \<Rightarrow> PetriNet \<Rightarrow> heap \<Rightarrow> ID \<Rightarrow> unit result \<times> heap" where
  "PetriNet_deepTick n net h start_place_id =
     (case findPlace net h start_place_id of
        None \<Rightarrow> (Thrown (invalid_argument ''Start place ID not found''), h)
      | Some ptr \<Rightarrow> Place_deepTick n ptr h)"

text \<open>\<^verbatim>\<open>deepTickCover()\<close> is declared \<^verbatim>\<open>noexcept(true)\<close> and has no handler: an exception
  that leaves one of its \<^verbatim>\<open>deepTick\<close> calls ends the program.\<close>

fun deepTickCover_loop ::
  "nat \<Rightarrow> PetriNet \<Rightarrow> place_ptr option list \<Rightarrow> heap \<Rightarrow> unit result \<times> heap" where
  "deepTickCover_loop n net [] h = (Returned (), h)"
| "deepTickCover_loop n net (None # rest) h = (NullDeref, h)"
| "deepTickCover_loop n net (Some place_ptr # rest) h =
     (case PetriNet_deepTick n net h (Place_id (place_at h place_ptr)) of
        (Returned u, h1) \<Rightarrow> deepTickCover_loop n net rest h1
      | (r, h1) \<Rightarrow> (r, h1))"

definition PetriNet_deepTickCover :: "nat \<Rightarrow> PetriNet \<Rightarrow> heap \<Rightarrow> unit result \<times> heap" where
  "PetriNet_deepTickCover n net h =
     (case deepTickCover_loop n net (PetriNet_places net) h of
        (Thrown e, h1) \<Rightarrow> (Terminated, h1)
      | (r, h1) \<Rightarrow> (r, h1))"

subsection \<open>Merging two nets\<close>

text \<open>The \<^verbatim>\<open>find_if\<close> over \<^verbatim>\<open>this->places_\<close> in the first check of \<^verbatim>\<open>merge\<close>; its lambda
  dereferences every pointer it meets (\<open>None\<close>: a null pointer was dereferenced).\<close>

fun has_place_id :: "heap \<Rightarrow> place_ptr option list \<Rightarrow> ID \<Rightarrow> bool option" where
  "has_place_id h [] i = Some False"
| "has_place_id h (None # rest) i = None"
| "has_place_id h (Some p # rest) i =
     (if Place_id (place_at h p) = i then Some True else has_place_id h rest i)"

fun has_transition_id :: "heap \<Rightarrow> transition_ptr list \<Rightarrow> ID \<Rightarrow> bool" where
  "has_transition_id h [] i = False"
| "has_transition_id h (t # rest) i =
     (if Transition_id (transition_at h t) = i then True else has_transition_id h rest i)"

fun merge_check_places ::
  "heap \<Rightarrow> place_ptr option list \<Rightarrow> place_ptr option list \<Rightarrow> unit result" where
  "merge_check_places h this_places [] = Returned ()"
| "merge_check_places h this_places (place # rest) =
     (if this_places = [] then merge_check_places h this_places rest
      else
        (case place of
           None \<Rightarrow> NullDeref
         | Some q \<Rightarrow>
             (case has_place_id h this_places (Place_id (place_at h q)) of
                None \<Rightarrow> NullDeref
              | Some True \<Rightarrow> Thrown (invalid_argument ''Duplicate PlaceIDs'')
              | Some False \<Rightarrow> merge_check_places h this_places rest)))"

fun merge_check_transitions ::
  "heap \<Rightarrow> transition_ptr list \<Rightarrow> transition_ptr list \<Rightarrow> unit result" where
  "merge_check_transitions h this_transitions [] = Returned ()"
| "merge_check_transitions h this_transitions (transition # rest) =
     (if has_transition_id h this_transitions (Transition_id (transition_at h transition))
      then Thrown (invalid_argument ''Duplicate TransactionIDs'')
      else merge_check_transitions h this_transitions rest)"

fun merge_check_interconnections ::
  "heap \<Rightarrow> transition_ptr list \<Rightarrow> TransitionSketch list \<Rightarrow> unit result" where
  "merge_check_interconnections h this_transitions [] = Returned ()"
| "merge_check_interconnections h this_transitions (sketch # rest) =
     (if has_transition_id h this_transitions (Sketch_id sketch)
      then Thrown (invalid_argument ''Duplicate TransitionIDs'')
      else merge_check_interconnections h this_transitions rest)"

definition to_sketch_weight_pair :: "heap \<Rightarrow> WeightPairT \<Rightarrow> SketchWeightPairT" where
  "to_sketch_weight_pair h wp = (Place_id (place_at h (fst wp)), snd wp)"

definition to_sketch :: "heap \<Rightarrow> transition_ptr \<Rightarrow> TransitionSketch \<times> condition option" where
  "to_sketch h t =
     (\<lparr>Sketch_id = Transition_id (transition_at h t),
       Sketch_ingoing = map (to_sketch_weight_pair h) (Transition_ingoing (transition_at h t)),
       Sketch_outgoing = map (to_sketch_weight_pair h) (Transition_outgoing (transition_at h t))\<rparr>,
      Transition_evaluate_condition (transition_at h t))"

text \<open>Clearing the adjacency lists of the Places of \<^verbatim>\<open>other\<close> (\<open>None\<close>: null pointer).\<close>

fun merge_clear :: "heap \<Rightarrow> place_ptr option list \<Rightarrow> heap option" where
  "merge_clear h [] = Some h"
| "merge_clear h (None # rest) = None"
| "merge_clear h (Some place # rest) =
     merge_clear
       (h\<lparr>place_at := (place_at h)(place := (place_at h place)
            \<lparr>Place_outgoing_to := [], Place_ingoing_to := []\<rparr>)\<rparr>) rest"

fun merge_create ::
  "PetriNet \<Rightarrow> heap \<Rightarrow> (TransitionSketch \<times> condition option) list
     \<Rightarrow> unit result \<times> PetriNet \<times> heap" where
  "merge_create net h [] = (Returned (), net, h)"
| "merge_create net h ((sketch, eval_cond) # rest) =
     (case addTransitionAcquired net h sketch of
        (Returned ptr, net1, h1) \<Rightarrow>
          (case findTransitionAcquired net1 h1 (Sketch_id sketch) of
             None \<Rightarrow> (NullDeref, net1, h1)
           | Some found \<Rightarrow> merge_create net1 (autoFire h1 found eval_cond) rest)
      | (r, net1, h1) \<Rightarrow> (map_result (\<lambda>_. ()) r, net1, h1))"

fun merge_interconnect ::
  "PetriNet \<Rightarrow> heap \<Rightarrow> TransitionSketch list \<Rightarrow> unit result \<times> PetriNet \<times> heap" where
  "merge_interconnect net h [] = (Returned (), net, h)"
| "merge_interconnect net h (sketch # rest) =
     (case addTransitionAcquired net h sketch of
        (Returned ptr, net1, h1) \<Rightarrow> merge_interconnect net1 h1 rest
      | (r, net1, h1) \<Rightarrow> (map_result (\<lambda>_. ()) r, net1, h1))"

text \<open>\<^verbatim>\<open>this->merge(std::move(other), interconnections)\<close>: the result, then \<^verbatim>\<open>this\<close>,
  \<^verbatim>\<open>other\<close> and the heap as the call leaves them.\<close>

definition PetriNet_merge ::
  "PetriNet \<Rightarrow> PetriNet \<Rightarrow> TransitionSketch list \<Rightarrow> heap
     \<Rightarrow> unit result \<times> PetriNet \<times> PetriNet \<times> heap" where
  "PetriNet_merge this other interconnections h =
     (case merge_check_places h (PetriNet_places this) (PetriNet_places other) of
        Returned u1 \<Rightarrow>
          (case merge_check_transitions h (PetriNet_transitions this)
                  (PetriNet_transitions other) of
             Returned u2 \<Rightarrow>
               (case merge_check_interconnections h (PetriNet_transitions this)
                       interconnections of
                  Returned u3 \<Rightarrow>
                    (let new_transitions = map (to_sketch h) (PetriNet_transitions other);
                         other1 = other\<lparr>PetriNet_transitions := []\<rparr>
                     in case merge_clear h (PetriNet_places other1) of
                          None \<Rightarrow> (NullDeref, this, other1, h)
                        | Some h1 \<Rightarrow>
                            (let this1 = this\<lparr>PetriNet_places :=
                                   PetriNet_places this @ PetriNet_places other1\<rparr>;
                                 other2 = other1\<lparr>PetriNet_places :=
                                   map (\<lambda>_. None) (PetriNet_places other1)\<rparr>
                             in case merge_create this1 h1 new_transitions of
                                  (Returned u4, this2, h2) \<Rightarrow>
                                    (case merge_interconnect this2 h2 interconnections of
                                       (r, this3, h3) \<Rightarrow> (r, this3, other2, h3))
                                | (r, this2, h2) \<Rightarrow> (r, this2, other2, h2)))
                | r \<Rightarrow> (r, this, other, h))
           | r \<Rightarrow> (r, this, other, h))
      | r \<Rightarrow> (r, this, other, h))"

subsection \<open>Nets of the test suite\<close>

definition heap_init :: heap where
  "heap_init =
     \<lparr>place_at = (\<lambda>_. \<lparr>Place_id = [], Place_tokens = 0, Place_on_change = None,
                         Place_outgoing_to = [], Place_ingoing_to = []\<rparr>),
      transition_at = (\<lambda>_. \<lparr>Transition_id = [], Transition_ingoing = [],
                              Transition_outgoing = [], Transition_evaluate_condition = None\<rparr>),
      place_next = 0, transition_next = 0, notified = []\<rparr>"

text \<open>\<^verbatim>\<open>PetriNet()\<close>: no Places, no Transitions.\<close>

definition net_init :: PetriNet where
  "net_init = \<lparr>PetriNet_places = [], PetriNet_transitions = []\<rparr>"

text \<open>Chaining construction calls: \<open>with_place\<close> is \<^verbatim>\<open>net.addPlace(id, n)\<close>,
  \<open>with_transition\<close> is \<^verbatim>\<open>net.addTransition(sketch)\<close>, \<open>with_auto\<close> is
  \<^verbatim>\<open>net.addTransition(sketch)->autoFire()\<close>; a call that throws leaves the net as it is.\<close>

definition with_place :: "ID \<Rightarrow> TokenCounter \<Rightarrow> PetriNet \<times> heap \<Rightarrow> PetriNet \<times> heap" where
  "with_place i n nh = (case addPlace (fst nh) (snd nh) i n of (r, net, h) \<Rightarrow> (net, h))"

definition with_transition ::
  "ID \<Rightarrow> SketchWeightPairT list \<Rightarrow> SketchWeightPairT list \<Rightarrow> PetriNet \<times> heap
     \<Rightarrow> PetriNet \<times> heap" where
  "with_transition i ingoing outgoing nh =
     (case addTransition (fst nh) (snd nh)
             \<lparr>Sketch_id = i, Sketch_ingoing = ingoing, Sketch_outgoing = outgoing\<rparr> of
        (r, net, h) \<Rightarrow> (net, h))"

definition with_auto ::
  "ID \<Rightarrow> SketchWeightPairT list \<Rightarrow> SketchWeightPairT list \<Rightarrow> PetriNet \<times> heap
     \<Rightarrow> PetriNet \<times> heap" where
  "with_auto i ingoing outgoing nh =
     (case addTransition (fst nh) (snd nh)
             \<lparr>Sketch_id = i, Sketch_ingoing = ingoing, Sketch_outgoing = outgoing\<rparr> of
        (Returned t, net, h) \<Rightarrow> (net, autoFire_always h t)
      | (r, net, h) \<Rightarrow> (net, h))"

text \<open>The proxies of the Transition tests build Places and Transitions outside a net:
  \<open>makePlace\<close> and \<open>makeTransition\<close> allocate the object, \<open>listening\<close> is
  \<^verbatim>\<open>place->onChange(fn)\<close>. Pointers are handed out in order, from 0.\<close>

definition makePlace :: "ID \<Rightarrow> TokenCounter \<Rightarrow> heap \<Rightarrow> heap" where
  "makePlace i initial h = snd (new_Place h i initial)"

definition makeTransition :: "ID \<Rightarrow> WeightPairT list \<Rightarrow> WeightPairT list \<Rightarrow> heap \<Rightarrow> heap" where
  "makeTransition i ingoing outgoing h = snd (new_Transition h i ingoing outgoing)"

definition listening :: "place_ptr \<Rightarrow> listener \<Rightarrow> heap \<Rightarrow> heap" where
  "listening p l h = Place_onChange h p (Some l)"

definition five_places :: heap where
  "five_places =
     makePlace ''E'' 0 (makePlace ''D'' 0 (makePlace ''C'' 5 (makePlace ''B'' 4
     (makePlace ''A'' 3 heap_init))))"

text \<open>The scenario of the \<^verbatim>\<open>fire()\<close> test: Places A=3, B=4, C=5, D=0, E=0 at pointers
  0 to 4 and the Transition T at pointer 0.\<close>

definition fire_scenario :: heap where
  "fire_scenario = makeTransition ''T'' [(0, 2), (1, 3), (2, 4)] [(3, 1), (4, 1)] five_places"

text \<open>The cyclic net of the cycle-detection test, with the token counts of A, B, C, D
  left open (the test has 1, 0, 0, 0), and its diamond-shaped net, with the token counts
  of A, B, C, D, E left open (the test has 1, 0, 0, 0, 0).\<close>

definition cycle_net :: "TokenCounter \<Rightarrow> TokenCounter \<Rightarrow> TokenCounter \<Rightarrow> TokenCounter
    \<Rightarrow> PetriNet \<times> heap" where
  "cycle_net a b c d =
     (with_auto ''DEA'' [(''D'', 1)] [(''E'', 1), (''A'', 1)]
     (with_auto ''CD'' [(''C'', 1)] [(''D'', 1)]
     (with_auto ''BC'' [(''B'', 1)] [(''C'', 1)]
     (with_auto ''AB'' [(''A'', 1)] [(''B'', 1)]
     (with_place ''E'' 0 (with_place ''D'' d (with_place ''C'' c (with_place ''B'' b
     (with_place ''A'' a (net_init, heap_init))))))))))"

definition diamond_net :: "TokenCounter \<Rightarrow> TokenCounter \<Rightarrow> TokenCounter \<Rightarrow> TokenCounter
    \<Rightarrow> TokenCounter \<Rightarrow> PetriNet \<times> heap" where
  "diamond_net a b c d e =
     (with_auto ''AE'' [(''A'', 1)] [(''E'', 1)]
     (with_auto ''CD'' [(''C'', 1)] [(''D'', 1)]
     (with_auto ''BD'' [(''B'', 1)] [(''D'', 1)]
     (with_auto ''ABC'' [(''A'', 1)] [(''B'', 1), (''C'', 1)]
     (with_place ''E'' e (with_place ''D'' d (with_place ''C'' c (with_place ''B'' b
     (with_place ''A'' a (net_init, heap_init))))))))))"

text \<open>The scenario of the \<^verbatim>\<open>onChange\<close> test: the same five Places, every one with the
  listener \<open>0\<close>, and T taking 2 from each of A, B, C and giving 1 to D and 2 to E.\<close>

definition onChange_scenario :: heap where
  "onChange_scenario =
     listening 4 0 (listening 3 0 (listening 2 0 (listening 1 0 (listening 0 0
     (makeTransition ''T'' [(0, 2), (1, 2), (2, 2)] [(3, 1), (4, 2)] five_places)))))"

text \<open>One Place A=5 and a Transition without inputs that gives 1 to A.\<close>

definition source_scenario :: heap where
  "source_scenario = makeTransition ''T'' [] [(0, 1)] (makePlace ''A'' 5 heap_init)"

text \<open>One Place A=3 and a Transition whose input list names A in two pairs of weight 2.\<close>

definition double_input_scenario :: heap where
  "double_input_scenario =
     makeTransition ''T'' [(0, 2), (0, 2)] [] (makePlace ''A'' 3 heap_init)"

text \<open>One Place A=3 with the listener \<open>7\<close>, input (weight 1) and output (weight 2) of
  the same Transition.\<close>

definition self_loop_scenario :: heap where
  "self_loop_scenario =
     listening 0 7 (makeTransition ''T'' [(0, 1)] [(0, 2)] (makePlace ''A'' 3 heap_init))"

text \<open>The two nets of the merge tests, built in one heap: net 1 has the Place A=1
  (pointer 0) and the auto-firing Transition T1 (pointer 0); net 2 has the Place B=1
  (pointer 1) with the listener \<open>3\<close> and the auto-firing Transition T2 (pointer 1).\<close>

definition net1_built :: "PetriNet \<times> heap" where
  "net1_built = with_auto ''T1'' [] [] (with_place ''A'' 1 (net_init, heap_init))"

definition net2_built :: "PetriNet \<times> heap" where
  "net2_built =
     (\<lambda>nh. (fst nh, listening 1 3 (snd nh)))
       (with_auto ''T2'' [] [] (with_place ''B'' 1 (net_init, snd net1_built)))"

section \<open>Properties\<close>

subsection \<open>What firing leaves alone\<close>

lemma place_at_Place_changed [simp]: "place_at (Place_changed h p prev) = place_at h"
  by (simp add: Place_changed_def split: option.split)

lemma transition_at_Place_changed [simp]:
  "transition_at (Place_changed h p prev) = transition_at h"
  by (simp add: Place_changed_def split: option.split)

lemma place_at_fire_notify [simp]: "place_at (fire_notify h n) = place_at h"
  by (induction h n rule: fire_notify.induct) simp_all

lemma transition_at_fire_notify [simp]: "transition_at (fire_notify h n) = transition_at h"
  by (induction h n rule: fire_notify.induct) simp_all

lemma tokens_set_tokens [simp]:
  "tokens (set_tokens h p v) q = (if q = p then v else tokens h q)"
  by (simp add: tokens_def set_tokens_def)

lemma transition_at_set_tokens [simp]: "transition_at (set_tokens h p v) = transition_at h"
  by (simp add: set_tokens_def)

lemma notified_set_tokens [simp]: "notified (set_tokens h p v) = notified h"
  by (simp add: set_tokens_def)

lemma tokens_fire_notify [simp]: "tokens (fire_notify h n) = tokens h"
  by (rule ext) (simp add: tokens_def)

lemma tokens_fire_outgoing:
  "tokens (fst (fire_outgoing h ps n)) p =
     tokens h p + sum_list (map snd (filter (\<lambda>(q, w). q = p) ps))"
  by (induction h ps n rule: fire_outgoing.induct) (simp_all add: add.assoc)

lemma transition_at_fire_outgoing [simp]:
  "transition_at (fst (fire_outgoing h ps n)) = transition_at h"
  by (induction h ps n rule: fire_outgoing.induct) simp_all

lemma transition_at_fire_ingoing [simp]:
  "transition_at (fst (fire_ingoing h ps n)) = transition_at h"
  by (induction h ps n rule: fire_ingoing.induct) simp_all

lemmas scenario_defs =
  five_places_def makePlace_def makeTransition_def listening_def
  heap_init_def new_Place_def new_Transition_def Place_onChange_def fire_def readyAcquired_def
  tokens_def set_tokens_def Place_changed_def Let_def

subsection \<open>Firing\<close>

text \<open>
  C7. With A=3, B=4, C=5, D=0, E=0 and T taking \<open>{A:2, B:3, C:4}\<close> and giving
  \<open>{D:1, E:1}\<close>, the first \<^verbatim>\<open>T.fire()\<close> returns true and leaves A=B=C=D=E=1; the second
  returns false and leaves every token count as it was.
\<close>

theorem fire_concrete_scenario:
  "fst (fire fire_scenario 0) = True \<and>
   map (tokens (snd (fire fire_scenario 0))) [0, 1, 2, 3, 4] = [1, 1, 1, 1, 1] \<and>
   fst (fire (snd (fire fire_scenario 0)) 0) = False \<and>
   (\<forall>p. tokens (snd (fire (snd (fire fire_scenario 0)) 0)) p =
        tokens (snd (fire fire_scenario 0)) p)"
  by (simp add: fire_scenario_def scenario_defs)

text \<open>
  C9. A Transition whose input list is empty is always ready, and every \<^verbatim>\<open>fire()\<close> of it
  returns true and adds to each Place the weights of the output pairs that name it,
  whatever the marking; firing leaves the Transition itself as it is, so this holds at
  every call.
\<close>

theorem empty_input_always_fires:
  assumes "Transition_ingoing (transition_at h t) = []"
  shows "ready h t \<and> fst (fire h t) \<and>
    (\<forall>p. tokens (snd (fire h t)) p =
       tokens h p +
       sum_list (map snd (filter (\<lambda>(q, w). q = p) (Transition_outgoing (transition_at h t))))) \<and>
    transition_at (snd (fire h t)) = transition_at h"
  using assms tokens_fire_outgoing [of h "Transition_outgoing (transition_at h t)" "[]"]
  by (simp add: ready_def readyAcquired_def fire_def Let_def case_prod_beta)

theorem empty_input_always_fires_witness:
  "Transition_ingoing (transition_at source_scenario 0) = [] \<and>
   ready source_scenario 0 \<and> fst (fire source_scenario 0) \<and>
   tokens source_scenario 0 = 5 \<and> tokens (snd (fire source_scenario 0)) 0 = 6"
proof -
  have empty: "Transition_ingoing (transition_at source_scenario 0) = []"
    by (simp add: source_scenario_def scenario_defs)
  have before: "tokens source_scenario 0 = 5"
    by (simp add: source_scenario_def scenario_defs)
  have outgoing: "Transition_outgoing (transition_at source_scenario 0) = [(0, 1)]"
    by (simp add: source_scenario_def scenario_defs)
  from empty_input_always_fires [OF empty] empty before outgoing show ?thesis
    by simp
qed

text \<open>
  C10. When \<^verbatim>\<open>fire()\<close> returns false, no change listener is called: the trace of listener
  calls after the call is the trace before it.
\<close>

theorem fire_false_no_notify:
  "fst (fire h t) = False \<Longrightarrow> notified (snd (fire h t)) = notified h"
  by (simp add: fire_def Let_def case_prod_beta split: if_splits)

theorem fire_false_no_notify_witness:
  "fst (fire (snd (fire onChange_scenario 0)) 0) = False \<and>
   notified (snd (fire (snd (fire onChange_scenario 0)) 0)) =
     notified (snd (fire onChange_scenario 0)) \<and>
   length (notified (snd (fire onChange_scenario 0))) = 5"
proof -
  have not_ready: "fst (fire (snd (fire onChange_scenario 0)) 0) = False"
    by (simp add: onChange_scenario_def scenario_defs)
  have five: "length (notified (snd (fire onChange_scenario 0))) = 5"
    by (simp add: onChange_scenario_def scenario_defs)
  from fire_false_no_notify [OF not_ready] not_ready five show ?thesis
    by simp
qed

text \<open>
  C2. The sufficiency check of \<^verbatim>\<open>readyAcquired\<close> compares each input pair with the
  Place's count on its own, while \<^verbatim>\<open>fire()\<close> subtracts the weights one after the other.
  With A=3 and the input list \<open>[(A, 2), (A, 2)]\<close> the check passes, \<^verbatim>\<open>fire()\<close> returns
  true, and the second subtraction takes the unsigned count below zero: it wraps
  around to \<open>2^32 - 1\<close>.
\<close>

theorem fire_double_input_underflow:
  "tokens double_input_scenario 0 = 3 \<and>
   Transition_ingoing (transition_at double_input_scenario 0) = [(0, 2), (0, 2)] \<and>
   fst (fire double_input_scenario 0) = True \<and>
   tokens (snd (fire double_input_scenario 0)) 0 = 4294967295"
  by (simp add: double_input_scenario_def scenario_defs)

subsection \<open>Cascades\<close>

text \<open>
  C1, as the specification states it, fails: \<^verbatim>\<open>Transition::deepTick(seen)\<close> does not call
  \<^verbatim>\<open>fire()\<close> unconditionally. The Transition T of the \<^verbatim>\<open>fire()\<close> test has no predicate
  installed and is ready (\<^verbatim>\<open>fire()\<close> would return true and take tokens from A), yet
  its \<^verbatim>\<open>deepTick\<close> returns with the heap untouched.
\<close>

theorem deepTick_without_predicate_does_not_fire:
  "Transition_evaluate_condition (transition_at fire_scenario 0) = None \<and>
   fst (fire fire_scenario 0) = True \<and>
   tokens (snd (fire fire_scenario 0)) 0 \<noteq> tokens fire_scenario 0 \<and>
   Transition_deepTick_seen 1 0 (fire_scenario, {}) = (Returned (), fire_scenario, {})"
  by (simp add: fire_scenario_def scenario_defs tick_def)

lemma transition_at_fire [simp]: "transition_at (snd (fire h t)) = transition_at h"
  by (simp add: fire_def Let_def case_prod_beta)

lemma failed_foldl:
  "fst acc \<noteq> Returned () \<Longrightarrow>
   foldl (\<lambda>acc pw. case acc of
            (Returned u, hs) \<Rightarrow> Place_deepTick_seen n (fst pw) hs
          | (r, hs) \<Rightarrow> (r, hs)) acc ps = acc"
  by (induction ps) (auto split: result.splits prod.splits)

lemma Transition_deepTick_loop_foldl:
  "Transition_deepTick_loop n ps (h, seen) =
     foldl (\<lambda>acc pw. case acc of
              (Returned u, hs) \<Rightarrow> Place_deepTick_seen n (fst pw) hs
            | (r, hs) \<Rightarrow> (r, hs)) (Returned (), h, seen) ps"
proof (induction ps arbitrary: h seen)
  case Nil
  show ?case by simp
next
  case (Cons pw ps)
  obtain place w where pw: "pw = (place, w)" by (cases pw)
  obtain r h1 seen1 where step: "Place_deepTick_seen n place (h, seen) = (r, h1, seen1)"
    by (cases "Place_deepTick_seen n place (h, seen)") auto
  show ?case
  proof (cases "r = Returned ()")
    case True
    with pw step Cons.IH [of h1 seen1] show ?thesis by simp
  next
    case False
    then have "fst (r, h1, seen1) \<noteq> Returned ()" by simp
    from failed_foldl [OF this, of n ps] False pw step show ?thesis
      by (cases r) simp_all
  qed
qed

text \<open>
  C1, amended. \<^verbatim>\<open>Transition::deepTick(seen)\<close> goes through \<^verbatim>\<open>tick()\<close>: it calls \<^verbatim>\<open>fire()\<close>
  only when a predicate is installed and evaluates to true. With no predicate, or a
  predicate that is false, it returns at once and changes nothing. When that \<^verbatim>\<open>fire()\<close>
  returns false it returns with the heap \<^verbatim>\<open>fire()\<close> left. When it returns true, the
  result is what calling \<^verbatim>\<open>Place::deepTick(seen)\<close> on the Place of every output pair gives,
  one after the other in the order of the output list, each call starting from the
  heap and the set the one before it left; the first call that does not return
  normally ends the cascade, and its outcome is the outcome of the whole call.
\<close>

theorem Transition_deepTick_seen_ticks:
  "Transition_deepTick_seen n t (h, seen) =
     (if (case Transition_evaluate_condition (transition_at h t) of
            None \<Rightarrow> False
          | Some c \<Rightarrow> c (Transition_id (transition_at h t)) (ready h t))
      then (case fire h t of
              (True, h1) \<Rightarrow>
                foldl (\<lambda>acc pw. case acc of
                         (Returned u, hs) \<Rightarrow> Place_deepTick_seen n (fst pw) hs
                       | (r, hs) \<Rightarrow> (r, hs))
                  (Returned (), h1, seen) (Transition_outgoing (transition_at h t))
            | (False, h1) \<Rightarrow> (Returned (), h1, seen))
      else (Returned (), h, seen))"
proof -
  obtain fired h1 where f: "fire h t = (fired, h1)"
    by (cases "fire h t")
  then have "transition_at h1 = transition_at h"
    using transition_at_fire [of h t] by simp
  with f show ?thesis
    by (cases fired) (simp_all add: tick_def Transition_deepTick_loop_foldl split: option.split)
qed

lemmas build_defs =
  with_place_def with_transition_def with_auto_def addPlace_def addTransition_def
  addPlaceAcquired_def addTransitionAcquired_def findPlaceAcquired_def
  findTransitionAcquired_def new_Place_def new_Transition_def autoFire_always_def autoFire_def
  net_init_def heap_init_def

lemmas run_defs =
  PetriNet_deepTick_def findPlace_def Place_deepTick_def tick_def fire_def ready_def
  readyAcquired_def tokens_def set_tokens_def Place_changed_def Let_def

lemma five_plus: "5 + n = Suc (Suc (Suc (Suc (Suc n))))"
  by simp

lemma three_plus: "3 + n = Suc (Suc (Suc n))"
  by simp

lemma one_plus: "1 + n = Suc n"
  by simp

text \<open>
  C5. In the cyclic net of the test (A=1, the other Places empty) \<^verbatim>\<open>deepTick("A")\<close>
  throws the runtime error ``Cycle detected'' to its caller. \<^verbatim>\<open>deepTickCover()\<close> on the
  same net starts with the same cascade, but the exception cannot leave a function
  declared \<^verbatim>\<open>noexcept(true)\<close>: the program is terminated and the caller gets no error
  to handle. Both hold for every depth bound from 5 on.
\<close>

theorem deepTickCover_terminates_program:
  "fst (PetriNet_deepTick (5 + n) (fst (cycle_net 1 0 0 0)) (snd (cycle_net 1 0 0 0)) ''A'')
     = Thrown (runtime_error ''Cycle detected'') \<and>
   fst (PetriNet_deepTickCover (5 + n) (fst (cycle_net 1 0 0 0)) (snd (cycle_net 1 0 0 0)))
     = Terminated"
  unfolding five_plus
  by (simp add: cycle_net_def build_defs run_defs PetriNet_deepTickCover_def)

text \<open>
  C6, as the specification states it, fails: in the cyclic net of the test (A=1 and
  B, C, D, E empty) \<^verbatim>\<open>deepTick("B")\<close> returns without an error and without any change,
  since the Transition that leaves B is not ready and the cascade stops there.
\<close>

theorem deepTick_from_empty_place_on_cycle:
  "PetriNet_deepTick 5 (fst (cycle_net 1 0 0 0)) (snd (cycle_net 1 0 0 0)) ''B''
     = (Returned (), snd (cycle_net 1 0 0 0))"
  by (simp add: cycle_net_def build_defs run_defs eval_nat_numeral)

text \<open>
  C6, amended. In the cyclic net A\<rightarrow>B\<rightarrow>C\<rightarrow>D\<rightarrow>A of the test, whatever the token counts
  \<open>a\<close>, \<open>b\<close>, \<open>c\<close>, \<open>d\<close> of A, B, C, D: \<^verbatim>\<open>deepTick\<close> started from a Place of the cycle
  fails with ``Cycle detected'' exactly when that Place holds a token and the token added
  to each of the other three on the way round does not wrap its counter to 0, so that
  the cascade fires all the way round; in every other case it returns without an
  error, and when the start Place is empty (the Transition that leaves it is not ready)
  it returns with the net unchanged. In the diamond-shaped net, whatever the token counts
  of its five Places, \<^verbatim>\<open>deepTick("A")\<close> returns without an error, although D can be
  reached twice. All this holds for every depth bound that is large enough (5 for the
  round trip, 1 for the empty start Place, 3 for the diamond).
\<close>

theorem deepTick_cycle_and_diamond:
  "fst (PetriNet_deepTick (5 + n) (fst (cycle_net a b c d)) (snd (cycle_net a b c d)) ''A'')
     = (if a \<noteq> 0 \<and> b + 1 \<noteq> 0 \<and> c + 1 \<noteq> 0 \<and> d + 1 \<noteq> 0
        then Thrown (runtime_error ''Cycle detected'') else Returned ()) \<and>
   fst (PetriNet_deepTick (5 + n) (fst (cycle_net a b c d)) (snd (cycle_net a b c d)) ''B'')
     = (if b \<noteq> 0 \<and> c + 1 \<noteq> 0 \<and> d + 1 \<noteq> 0 \<and> a + 1 \<noteq> 0
        then Thrown (runtime_error ''Cycle detected'') else Returned ()) \<and>
   fst (PetriNet_deepTick (5 + n) (fst (cycle_net a b c d)) (snd (cycle_net a b c d)) ''C'')
     = (if c \<noteq> 0 \<and> d + 1 \<noteq> 0 \<and> a + 1 \<noteq> 0 \<and> b + 1 \<noteq> 0
        then Thrown (runtime_error ''Cycle detected'') else Returned ()) \<and>
   fst (PetriNet_deepTick (5 + n) (fst (cycle_net a b c d)) (snd (cycle_net a b c d)) ''D'')
     = (if d \<noteq> 0 \<and> a + 1 \<noteq> 0 \<and> b + 1 \<noteq> 0 \<and> c + 1 \<noteq> 0
        then Thrown (runtime_error ''Cycle detected'') else Returned ()) \<and>
   (a = 0 \<longrightarrow>
      PetriNet_deepTick (1 + n) (fst (cycle_net a b c d)) (snd (cycle_net a b c d)) ''A''
        = (Returned (), snd (cycle_net a b c d))) \<and>
   (b = 0 \<longrightarrow>
      PetriNet_deepTick (1 + n) (fst (cycle_net a b c d)) (snd (cycle_net a b c d)) ''B''
        = (Returned (), snd (cycle_net a b c d))) \<and>
   (c = 0 \<longrightarrow>
      PetriNet_deepTick (1 + n) (fst (cycle_net a b c d)) (snd (cycle_net a b c d)) ''C''
        = (Returned (), snd (cycle_net a b c d))) \<and>
   (d = 0 \<longrightarrow>
      PetriNet_deepTick (1 + n) (fst (cycle_net a b c d)) (snd (cycle_net a b c d)) ''D''
        = (Returned (), snd (cycle_net a b c d))) \<and>
   fst (PetriNet_deepTick (3 + n) (fst (diamond_net a b c d e)) (snd (diamond_net a b c d e)) ''A'')
     = Returned ()"
proof -
  have round_A: "fst (PetriNet_deepTick (5 + n) (fst (cycle_net a b c d)) (snd (cycle_net a b c d)) ''A'')
         = (if a \<noteq> 0 \<and> b + 1 \<noteq> 0 \<and> c + 1 \<noteq> 0 \<and> d + 1 \<noteq> 0
            then Thrown (runtime_error ''Cycle detected'') else Returned ())"
    unfolding five_plus by (simp add: cycle_net_def build_defs run_defs)
  have round_B: "fst (PetriNet_deepTick (5 + n) (fst (cycle_net a b c d)) (snd (cycle_net a b c d)) ''B'')
         = (if b \<noteq> 0 \<and> c + 1 \<noteq> 0 \<and> d + 1 \<noteq> 0 \<and> a + 1 \<noteq> 0
            then Thrown (runtime_error ''Cycle detected'') else Returned ())"
    unfolding five_plus by (simp add: cycle_net_def build_defs run_defs)
  have round_C: "fst (PetriNet_deepTick (5 + n) (fst (cycle_net a b c d)) (snd (cycle_net a b c d)) ''C'')
         = (if c \<noteq> 0 \<and> d + 1 \<noteq> 0 \<and> a + 1 \<noteq> 0 \<and> b + 1 \<noteq> 0
            then Thrown (runtime_error ''Cycle detected'') else Returned ())"
    unfolding five_plus by (simp add: cycle_net_def build_defs run_defs)
  have round_D: "fst (PetriNet_deepTick (5 + n) (fst (cycle_net a b c d)) (snd (cycle_net a b c d)) ''D'')
         = (if d \<noteq> 0 \<and> a + 1 \<noteq> 0 \<and> b + 1 \<noteq> 0 \<and> c + 1 \<noteq> 0
            then Thrown (runtime_error ''Cycle detected'') else Returned ())"
    unfolding five_plus by (simp add: cycle_net_def build_defs run_defs)
  have empty_A: "a = 0 \<longrightarrow>
          PetriNet_deepTick (1 + n) (fst (cycle_net a b c d)) (snd (cycle_net a b c d)) ''A''
            = (Returned (), snd (cycle_net a b c d))"
    unfolding one_plus by (simp add: cycle_net_def build_defs run_defs)
  have empty_B: "b = 0 \<longrightarrow>
          PetriNet_deepTick (1 + n) (fst (cycle_net a b c d)) (snd (cycle_net a b c d)) ''B''
            = (Returned (), snd (cycle_net a b c d))"
    unfolding one_plus by (simp add: cycle_net_def build_defs run_defs)
  have empty_C: "c = 0 \<longrightarrow>
          PetriNet_deepTick (1 + n) (fst (cycle_net a b c d)) (snd (cycle_net a b c d)) ''C''
            = (Returned (), snd (cycle_net a b c d))"
    unfolding one_plus by (simp add: cycle_net_def build_defs run_defs)
  have empty_D: "d = 0 \<longrightarrow>
          PetriNet_deepTick (1 + n) (fst (cycle_net a b c d)) (snd (cycle_net a b c d)) ''D''
            = (Returned (), snd (cycle_net a b c d))"
    unfolding one_plus by (simp add: cycle_net_def build_defs run_defs)
  have diamond: "fst (PetriNet_deepTick (3 + n) (fst (diamond_net a b c d e)) (snd (diamond_net a b c d e)) ''A'')
         = Returned ()"
    unfolding three_plus by (simp add: diamond_net_def build_defs run_defs)
  from round_A round_B round_C round_D empty_A empty_B empty_C empty_D diamond show ?thesis
    by blast
qed

theorem deepTick_cycle_and_diamond_witness:
  "fst (PetriNet_deepTick 5 (fst (cycle_net 1 1 1 1)) (snd (cycle_net 1 1 1 1)) ''A'')
     = Thrown (runtime_error ''Cycle detected'') \<and>
   fst (PetriNet_deepTick 5 (fst (cycle_net 1 1 1 1)) (snd (cycle_net 1 1 1 1)) ''B'')
     = Thrown (runtime_error ''Cycle detected'') \<and>
   fst (PetriNet_deepTick 5 (fst (cycle_net 1 1 1 1)) (snd (cycle_net 1 1 1 1)) ''C'')
     = Thrown (runtime_error ''Cycle detected'') \<and>
   fst (PetriNet_deepTick 5 (fst (cycle_net 1 1 1 1)) (snd (cycle_net 1 1 1 1)) ''D'')
     = Thrown (runtime_error ''Cycle detected'') \<and>
   PetriNet_deepTick 1 (fst (cycle_net 0 0 0 0)) (snd (cycle_net 0 0 0 0)) ''A''
     = (Returned (), snd (cycle_net 0 0 0 0)) \<and>
   PetriNet_deepTick 1 (fst (cycle_net 0 0 0 0)) (snd (cycle_net 0 0 0 0)) ''B''
     = (Returned (), snd (cycle_net 0 0 0 0)) \<and>
   PetriNet_deepTick 1 (fst (cycle_net 0 0 0 0)) (snd (cycle_net 0 0 0 0)) ''C''
     = (Returned (), snd (cycle_net 0 0 0 0)) \<and>
   PetriNet_deepTick 1 (fst (cycle_net 0 0 0 0)) (snd (cycle_net 0 0 0 0)) ''D''
     = (Returned (), snd (cycle_net 0 0 0 0)) \<and>
   fst (PetriNet_deepTick 3 (fst (diamond_net 1 0 0 0 0)) (snd (diamond_net 1 0 0 0 0)) ''A'')
     = Returned ()"
  using deepTick_cycle_and_diamond [where a = 1 and b = 1 and c = 1 and d = 1 and e = 0 and n = 0]
    deepTick_cycle_and_diamond [where a = 0 and b = 0 and c = 0 and d = 0 and e = 0 and n = 0]
    deepTick_cycle_and_diamond [where a = 1 and b = 0 and c = 0 and d = 0 and e = 0 and n = 0]
  by simp

subsection \<open>Change notifications\<close>

lemma calls_of_Nil [simp]: "calls_of h [] = []"
  by (simp add: calls_of_def)

lemma calls_of_Cons:
  "calls_of h ((p, prev) # n) =
     (case Place_on_change (place_at h p) of
        None \<Rightarrow> []
      | Some l \<Rightarrow> [\<lparr>call_listener = l, call_place = p, call_tokens = tokens h p,
                    call_prev = prev\<rparr>]) @ calls_of h n"
  by (simp add: calls_of_def)

lemma calls_of_append [simp]: "calls_of h (n @ m) = calls_of h n @ calls_of h m"
  by (simp add: calls_of_def)

lemma calls_of_cong:
  "place_at h' = place_at h \<Longrightarrow> calls_of h' n = calls_of h n"
  by (simp add: calls_of_def tokens_def cong: option.case_cong)

lemma notified_Place_changed:
  "notified (Place_changed h p prev) = notified h @ calls_of h [(p, prev)]"
  by (simp add: Place_changed_def calls_of_def split: option.split)

lemma notified_fire_notify: "notified (fire_notify h n) = notified h @ calls_of h n"
proof (induction h n rule: fire_notify.induct)
  case (1 h)
  show ?case by simp
next
  case (2 h place prev rest)
  have "calls_of (Place_changed h place prev) rest = calls_of h rest"
    by (rule calls_of_cong) simp
  with 2 show ?case
    by (simp add: notified_Place_changed calls_of_Cons calls_of_def)
qed

lemma count_calls_of:
  "length (filter (\<lambda>c. call_place c = p) (calls_of h n)) =
     (case Place_on_change (place_at h p) of
        None \<Rightarrow> 0
      | Some l \<Rightarrow> length (filter (\<lambda>e. fst e = p) n))"
  by (induction n) (auto simp: calls_of_Cons split: option.split)

lemma set_calls_of:
  "c \<in> set (calls_of h n) \<Longrightarrow>
     Place_on_change (place_at h (call_place c)) = Some (call_listener c) \<and>
     call_tokens c = tokens h (call_place c)"
  by (induction n) (auto simp: calls_of_Cons split: option.splits)

lemma find_calls_of_None:
  "Place_on_change (place_at h p) = None \<Longrightarrow>
     find (\<lambda>c. call_place c = p) (calls_of h n) = None"
  by (auto simp: find_None_iff dest: set_calls_of)

lemma find_calls_of:
  "find (\<lambda>c. call_place c = p) (calls_of h n) = Some c \<Longrightarrow>
     \<exists>e. find (\<lambda>e. fst e = p) n = Some e \<and> call_prev c = snd e"
proof (induction n)
  case Nil
  then show ?case by simp
next
  case (Cons e n)
  obtain q prev where e: "e = (q, prev)" by (cases e)
  show ?case
  proof (cases "q = p")
    case True
    with Cons.prems e show ?thesis
      by (cases "Place_on_change (place_at h p)")
         (auto simp: calls_of_Cons find_calls_of_None)
  next
    case False
    with Cons.prems e have "find (\<lambda>c. call_place c = p) (calls_of h n) = Some c"
      by (simp add: calls_of_Cons split: option.splits)
    with Cons.IH False e show ?thesis by simp
  qed
qed


lemma snd_fire_ingoing:
  "snd (fire_ingoing h ps n) = n @ snd (fire_ingoing h ps [])"
proof (induction ps arbitrary: h n)
  case Nil
  show ?case by simp
next
  case (Cons e ps)
  obtain p w where e: "e = (p, w)" by (cases e)
  show ?case
    unfolding e fire_ingoing.simps
    by (subst Cons.IH, subst (2) Cons.IH) simp
qed

lemma snd_fire_outgoing:
  "snd (fire_outgoing h ps n) = n @ snd (fire_outgoing h ps [])"
proof (induction ps arbitrary: h n)
  case Nil
  show ?case by simp
next
  case (Cons e ps)
  obtain p w where e: "e = (p, w)" by (cases e)
  show ?case
    unfolding e fire_outgoing.simps
    by (subst Cons.IH, subst (2) Cons.IH) simp
qed

lemma map_fst_fire_ingoing: "map fst (snd (fire_ingoing h ps [])) = map fst ps"
proof (induction ps arbitrary: h)
  case Nil
  show ?case by simp
next
  case (Cons e ps)
  obtain p w where e: "e = (p, w)" by (cases e)
  show ?case
    unfolding e fire_ingoing.simps
    by (subst snd_fire_ingoing) (simp add: Cons.IH)
qed

lemma map_fst_fire_outgoing: "map fst (snd (fire_outgoing h ps [])) = map fst ps"
proof (induction ps arbitrary: h)
  case Nil
  show ?case by simp
next
  case (Cons e ps)
  obtain p w where e: "e = (p, w)" by (cases e)
  show ?case
    unfolding e fire_outgoing.simps
    by (subst snd_fire_outgoing) (simp add: Cons.IH)
qed

lemma notified_fire_ingoing [simp]: "notified (fst (fire_ingoing h ps n)) = notified h"
  by (induction h ps n rule: fire_ingoing.induct) simp_all

lemma notified_fire_outgoing [simp]: "notified (fst (fire_outgoing h ps n)) = notified h"
  by (induction h ps n rule: fire_outgoing.induct) simp_all

lemma on_change_set_tokens [simp]:
  "Place_on_change (place_at (set_tokens h p v) q) = Place_on_change (place_at h q)"
  by (simp add: set_tokens_def)

lemma on_change_fire_ingoing [simp]:
  "Place_on_change (place_at (fst (fire_ingoing h ps n)) q) = Place_on_change (place_at h q)"
  by (induction h ps n rule: fire_ingoing.induct) simp_all

lemma on_change_fire_outgoing [simp]:
  "Place_on_change (place_at (fst (fire_outgoing h ps n)) q) = Place_on_change (place_at h q)"
  by (induction h ps n rule: fire_outgoing.induct) simp_all

lemma tokens_fire_ingoing_other:
  "q \<notin> fst ` set ps \<Longrightarrow> tokens (fst (fire_ingoing h ps n)) q = tokens h q"
  by (induction h ps n rule: fire_ingoing.induct) auto

lemma find_fire_ingoing:
  "find (\<lambda>e. fst e = p) (snd (fire_ingoing h ps [])) = Some e \<Longrightarrow> snd e = tokens h p"
proof (induction ps arbitrary: h)
  case Nil
  then show ?case by simp
next
  case (Cons x ps)
  obtain q w where x: "x = (q, w)" by (cases x)
  from Cons.prems have *:
    "find (\<lambda>e. fst e = p)
       ((q, tokens h q) # snd (fire_ingoing (set_tokens h q (tokens h q - w)) ps [])) = Some e"
    unfolding x fire_ingoing.simps by (subst (asm) snd_fire_ingoing) simp
  show ?case
  proof (cases "q = p")
    case True
    with * show ?thesis by auto
  next
    case False
    with * have "find (\<lambda>e. fst e = p)
        (snd (fire_ingoing (set_tokens h q (tokens h q - w)) ps [])) = Some e"
      by simp
    from Cons.IH [OF this] False show ?thesis by simp
  qed
qed

lemma find_fire_outgoing:
  "find (\<lambda>e. fst e = p) (snd (fire_outgoing h ps [])) = Some e \<Longrightarrow> snd e = tokens h p"
proof (induction ps arbitrary: h)
  case Nil
  then show ?case by simp
next
  case (Cons x ps)
  obtain q w where x: "x = (q, w)" by (cases x)
  from Cons.prems have *:
    "find (\<lambda>e. fst e = p)
       ((q, tokens h q) # snd (fire_outgoing (set_tokens h q (tokens h q + w)) ps [])) = Some e"
    unfolding x fire_outgoing.simps by (subst (asm) snd_fire_outgoing) simp
  show ?case
  proof (cases "q = p")
    case True
    with * show ?thesis by auto
  next
    case False
    with * have "find (\<lambda>e. fst e = p)
        (snd (fire_outgoing (set_tokens h q (tokens h q + w)) ps [])) = Some e"
      by simp
    from Cons.IH [OF this] False show ?thesis by simp
  qed
qed

lemma find_append_cases:
  "find P (xs @ ys) = (case find P xs of None \<Rightarrow> find P ys | Some x \<Rightarrow> Some x)"
  by (induction xs) simp_all

lemma length_filter_fst_map:
  "length (filter (\<lambda>e. fst e = p) zs) = length (filter (\<lambda>x. x = p) (map fst zs))"
  by (simp add: filter_map comp_def)

lemma length_filter_fst:
  assumes "map fst xs = map fst ys"
  shows "length (filter (\<lambda>e. fst e = p) xs) = length (filter (\<lambda>e. fst e = p) ys)"
  using assms by (simp add: length_filter_fst_map)

lemma fire_calls_eq:
  assumes "fst (fire h t)"
  shows "notified (snd (fire h t)) = notified h @ fire_calls h t"
    and "fire_calls h t =
      calls_of (fst (fire_outgoing (fst (fire_ingoing h (Transition_ingoing (transition_at h t)) []))
                  (Transition_outgoing (transition_at h t))
                  (snd (fire_ingoing h (Transition_ingoing (transition_at h t)) []))))
        (snd (fire_ingoing h (Transition_ingoing (transition_at h t)) []) @
         snd (fire_outgoing (fst (fire_ingoing h (Transition_ingoing (transition_at h t)) []))
                (Transition_outgoing (transition_at h t)) []))"
proof -
  from assms have rdy: "readyAcquired h t"
    by (simp add: fire_def Let_def split: if_splits)
  then have n: "notified (snd (fire h t)) =
      notified h @
      calls_of (fst (fire_outgoing (fst (fire_ingoing h (Transition_ingoing (transition_at h t)) []))
                  (Transition_outgoing (transition_at h t))
                  (snd (fire_ingoing h (Transition_ingoing (transition_at h t)) []))))
        (snd (fire_outgoing (fst (fire_ingoing h (Transition_ingoing (transition_at h t)) []))
                (Transition_outgoing (transition_at h t))
                (snd (fire_ingoing h (Transition_ingoing (transition_at h t)) []))))"
    by (simp add: fire_def Let_def case_prod_beta notified_fire_notify)
  then show "fire_calls h t =
      calls_of (fst (fire_outgoing (fst (fire_ingoing h (Transition_ingoing (transition_at h t)) []))
                  (Transition_outgoing (transition_at h t))
                  (snd (fire_ingoing h (Transition_ingoing (transition_at h t)) []))))
        (snd (fire_ingoing h (Transition_ingoing (transition_at h t)) []) @
         snd (fire_outgoing (fst (fire_ingoing h (Transition_ingoing (transition_at h t)) []))
                (Transition_outgoing (transition_at h t)) []))"
    unfolding fire_calls_def
    by (subst (asm) snd_fire_outgoing) simp
  with n show "notified (snd (fire h t)) = notified h @ fire_calls h t"
    by (subst (asm) snd_fire_outgoing) simp
qed

lemma tokens_snd_fire:
  assumes "fst (fire h t)"
  shows "tokens (snd (fire h t)) =
     tokens (fst (fire_outgoing (fst (fire_ingoing h (Transition_ingoing (transition_at h t)) []))
                  (Transition_outgoing (transition_at h t))
                  (snd (fire_ingoing h (Transition_ingoing (transition_at h t)) []))))"
  using assms by (simp add: fire_def Let_def case_prod_beta split: if_splits)

text \<open>
  C3, as the specification states it, fails: a Place that is both input and output of
  the Transition is on \<^verbatim>\<open>places_to_notify\<close> twice, so its listener is called twice. With
  A=3 as input (weight 1) and output (weight 2), the listener of A is called with the
  previous value 3 and again with the previous value 2.
\<close>

theorem fire_notifies_input_output_place_twice:
  "fst (fire self_loop_scenario 0) = True \<and>
   fire_calls self_loop_scenario 0 =
     [\<lparr>call_listener = 7, call_place = 0, call_tokens = 4, call_prev = 3\<rparr>,
      \<lparr>call_listener = 7, call_place = 0, call_tokens = 4, call_prev = 2\<rparr>]"
  by (simp add: self_loop_scenario_def scenario_defs fire_calls_def)

text \<open>
  C3, amended. When \<^verbatim>\<open>fire()\<close> succeeds, the listener calls it makes are appended to the
  trace, and every weight pair of the Transition, inputs and outputs alike, gives one
  call to the listener of its Place: a Place with a listener that is named in \<open>k\<close> pairs
  is notified \<open>k\<close> times (exactly once when it is in one pair, twice when it is one input
  and one output), a Place without a listener not at all. The first call for a Place
  gets as previous value the count the Place had before the firing, that is, just
  before its own first mutation; every call is made by the listener installed on the
  Place and shows the Place with its count after the firing.
\<close>

theorem fire_notifies_once_per_pair:
  assumes "fst (fire h t)"
  shows "notified (snd (fire h t)) = notified h @ fire_calls h t \<and>
    (\<forall>p. length (filter (\<lambda>c. call_place c = p) (fire_calls h t)) =
       (case Place_on_change (place_at h p) of
          None \<Rightarrow> 0
        | Some l \<Rightarrow> length (filter (\<lambda>wp. fst wp = p)
            (Transition_ingoing (transition_at h t) @ Transition_outgoing (transition_at h t))))) \<and>
    (\<forall>p c. find (\<lambda>c. call_place c = p) (fire_calls h t) = Some c \<longrightarrow>
       call_prev c = tokens h p) \<and>
    (\<forall>c \<in> set (fire_calls h t).
       Place_on_change (place_at h (call_place c)) = Some (call_listener c) \<and>
       call_tokens c = tokens (snd (fire h t)) (call_place c))"
proof -
  let ?ins = "Transition_ingoing (transition_at h t)"
  let ?outs = "Transition_outgoing (transition_at h t)"
  let ?h1 = "fst (fire_ingoing h ?ins [])"
  let ?m_in = "snd (fire_ingoing h ?ins [])"
  let ?h2 = "fst (fire_outgoing ?h1 ?outs ?m_in)"
  let ?m_out = "snd (fire_outgoing ?h1 ?outs [])"
  note calls = fire_calls_eq(2) [OF assms]
  have fsts: "map fst (?m_in @ ?m_out) = map fst (?ins @ ?outs)"
    by (simp add: map_fst_fire_ingoing map_fst_fire_outgoing)
  have count: "length (filter (\<lambda>c. call_place c = p) (fire_calls h t)) =
       (case Place_on_change (place_at h p) of
          None \<Rightarrow> 0
        | Some l \<Rightarrow> length (filter (\<lambda>wp. fst wp = p) (?ins @ ?outs)))" for p
    unfolding calls count_calls_of
    using length_filter_fst [OF fsts, of p] by (simp split: option.split)
  have first: "call_prev c = tokens h p"
    if "find (\<lambda>c. call_place c = p) (fire_calls h t) = Some c" for p c
  proof -
    from that obtain e where e: "find (\<lambda>e. fst e = p) (?m_in @ ?m_out) = Some e"
      and prev: "call_prev c = snd e"
      unfolding calls by (blast dest: find_calls_of)
    show ?thesis
    proof (cases "find (\<lambda>e. fst e = p) ?m_in")
      case (Some e')
      with e have "find (\<lambda>e. fst e = p) ?m_in = Some e"
        by (simp add: find_append_cases)
      from find_fire_ingoing [OF this] prev show ?thesis by simp
    next
      case None
      then have "p \<notin> fst ` set ?m_in"
        by (auto simp: find_None_iff)
      then have "p \<notin> fst ` set ?ins"
        using arg_cong [OF map_fst_fire_ingoing [of h ?ins], of set] by simp
      then have same: "tokens ?h1 p = tokens h p"
        by (rule tokens_fire_ingoing_other)
      from None e have "find (\<lambda>e. fst e = p) ?m_out = Some e"
        by (simp add: find_append_cases)
      from find_fire_outgoing [OF this] prev same show ?thesis by simp
    qed
  qed
  have every: "Place_on_change (place_at h (call_place c)) = Some (call_listener c) \<and>
       call_tokens c = tokens (snd (fire h t)) (call_place c)"
    if "c \<in> set (fire_calls h t)" for c
    using set_calls_of [of c ?h2 "?m_in @ ?m_out"] that
    unfolding calls tokens_snd_fire [OF assms] by simp
  from fire_calls_eq(1) [OF assms] count first every show ?thesis
    by blast
qed

theorem fire_notifies_once_per_pair_witness:
  "fst (fire onChange_scenario 0) \<and>
   length (filter (\<lambda>c. call_place c = 2) (fire_calls onChange_scenario 0)) = 1 \<and>
   fire_calls onChange_scenario 0 =
     [\<lparr>call_listener = 0, call_place = 0, call_tokens = 1, call_prev = 3\<rparr>,
      \<lparr>call_listener = 0, call_place = 1, call_tokens = 2, call_prev = 4\<rparr>,
      \<lparr>call_listener = 0, call_place = 2, call_tokens = 3, call_prev = 5\<rparr>,
      \<lparr>call_listener = 0, call_place = 3, call_tokens = 1, call_prev = 0\<rparr>,
      \<lparr>call_listener = 0, call_place = 4, call_tokens = 2, call_prev = 0\<rparr>]"
proof -
  have fired: "fst (fire onChange_scenario 0)"
    by (simp add: onChange_scenario_def scenario_defs)
  have calls: "fire_calls onChange_scenario 0 =
     [\<lparr>call_listener = 0, call_place = 0, call_tokens = 1, call_prev = 3\<rparr>,
      \<lparr>call_listener = 0, call_place = 1, call_tokens = 2, call_prev = 4\<rparr>,
      \<lparr>call_listener = 0, call_place = 2, call_tokens = 3, call_prev = 5\<rparr>,
      \<lparr>call_listener = 0, call_place = 3, call_tokens = 1, call_prev = 0\<rparr>,
      \<lparr>call_listener = 0, call_place = 4, call_tokens = 2, call_prev = 0\<rparr>]"
    by (simp add: onChange_scenario_def scenario_defs fire_calls_def)
  have listener: "Place_on_change (place_at onChange_scenario 2) = Some 0"
    by (simp add: onChange_scenario_def scenario_defs)
  have pairs: "Transition_ingoing (transition_at onChange_scenario 0) @
      Transition_outgoing (transition_at onChange_scenario 0) =
      [(0, 2), (1, 2), (2, 2), (3, 1), (4, 2)]"
    by (simp add: onChange_scenario_def scenario_defs)
  from fire_notifies_once_per_pair [OF fired]
  have "length (filter (\<lambda>c. call_place c = 2) (fire_calls onChange_scenario 0)) =
       (case Place_on_change (place_at onChange_scenario 2) of
          None \<Rightarrow> 0
        | Some l \<Rightarrow> length (filter (\<lambda>wp. fst wp = 2)
            (Transition_ingoing (transition_at onChange_scenario 0) @
             Transition_outgoing (transition_at onChange_scenario 0))))"
    by blast
  then have "length (filter (\<lambda>c. call_place c = 2) (fire_calls onChange_scenario 0)) = 1"
    unfolding listener pairs by simp
  with fired calls show ?thesis
    by blast
qed

subsection \<open>Merge\<close>

lemma place_payload_register_ingoing [simp]:
  "Place_tokens (place_at (register_ingoing h ptr ps) q) = Place_tokens (place_at h q)"
  "Place_on_change (place_at (register_ingoing h ptr ps) q) = Place_on_change (place_at h q)"
  "Place_id (place_at (register_ingoing h ptr ps) q) = Place_id (place_at h q)"
  by (induction h ptr ps rule: register_ingoing.induct) simp_all

lemma place_payload_register_outgoing [simp]:
  "Place_tokens (place_at (register_outgoing h ptr ps) q) = Place_tokens (place_at h q)"
  "Place_on_change (place_at (register_outgoing h ptr ps) q) = Place_on_change (place_at h q)"
  "Place_id (place_at (register_outgoing h ptr ps) q) = Place_id (place_at h q)"
  by (induction h ptr ps rule: register_outgoing.induct) simp_all

lemma place_payload_addTransitionAcquired:
  assumes "addTransitionAcquired net h sketch = (r, net1, h1)"
  shows "Place_tokens (place_at h1 q) = Place_tokens (place_at h q)"
    and "Place_on_change (place_at h1 q) = Place_on_change (place_at h q)"
    and "PetriNet_places net1 = PetriNet_places net"
  using assms
  by (auto simp: addTransitionAcquired_def new_Transition_def Let_def
           split: if_splits option.splits)

lemma place_at_autoFire [simp]: "place_at (autoFire h t c) = place_at h"
  by (simp add: autoFire_def)

lemma place_payload_merge_clear:
  "merge_clear h ps = Some h1 \<Longrightarrow>
     Place_tokens (place_at h1 q) = Place_tokens (place_at h q) \<and>
     Place_on_change (place_at h1 q) = Place_on_change (place_at h q)"
  by (induction h ps rule: merge_clear.induct) auto

lemma place_payload_merge_create:
  "merge_create net h new_transitions = (r, net1, h1) \<Longrightarrow>
     Place_tokens (place_at h1 q) = Place_tokens (place_at h q) \<and>
     Place_on_change (place_at h1 q) = Place_on_change (place_at h q) \<and>
     PetriNet_places net1 = PetriNet_places net"
proof (induction net h new_transitions rule: merge_create.induct)
  case (1 net h)
  then show ?case by simp
next
  case (2 net h sketch eval_cond rest)
  obtain r0 net0 h0 where add: "addTransitionAcquired net h sketch = (r0, net0, h0)"
    by (cases "addTransitionAcquired net h sketch") auto
  note keep = place_payload_addTransitionAcquired [OF add]
  show ?case
  proof (cases r0)
    case (Returned ptr)
    show ?thesis
    proof (cases "findTransitionAcquired net0 h0 (Sketch_id sketch)")
      case None
      with "2.prems" add Returned keep show ?thesis by auto
    next
      case (Some found)
      with "2.prems" add Returned
      have "merge_create net0 (autoFire h0 found eval_cond) rest = (r, net1, h1)"
        by simp
      from "2.IH" [OF add [symmetric] Returned refl Some this] keep
      show ?thesis by simp
    qed
  qed (use "2.prems" add keep in auto)
qed

lemma place_payload_merge_interconnect:
  "merge_interconnect net h sketches = (r, net1, h1) \<Longrightarrow>
     Place_tokens (place_at h1 q) = Place_tokens (place_at h q) \<and>
     Place_on_change (place_at h1 q) = Place_on_change (place_at h q) \<and>
     PetriNet_places net1 = PetriNet_places net"
proof (induction net h sketches rule: merge_interconnect.induct)
  case (1 net h)
  then show ?case by simp
next
  case (2 net h sketch rest)
  obtain r0 net0 h0 where add: "addTransitionAcquired net h sketch = (r0, net0, h0)"
    by (cases "addTransitionAcquired net h sketch") auto
  note keep = place_payload_addTransitionAcquired [OF add]
  show ?case
  proof (cases r0)
    case (Returned ptr)
    with "2.prems" add have "merge_interconnect net0 h0 rest = (r, net1, h1)"
      by simp
    from "2.IH" [OF add [symmetric] Returned refl this] keep
    show ?thesis by simp
  qed (use "2.prems" add keep in auto)
qed

lemma merge_place_payload:
  assumes "PetriNet_merge this other interconnections h = (r, this', other', h')"
  shows "Place_tokens (place_at h' q) = Place_tokens (place_at h q) \<and>
         Place_on_change (place_at h' q) = Place_on_change (place_at h q)"
  using assms
  by (auto simp: PetriNet_merge_def Let_def
           split: result.splits option.splits prod.splits
           dest!: place_payload_merge_clear [where q = q]
                  place_payload_merge_create [where q = q]
                  place_payload_merge_interconnect [where q = q])

lemma merge_moves_places:
  assumes "PetriNet_merge this other interconnections h = (Returned (), this', other', h')"
  shows "PetriNet_places this' = PetriNet_places this @ PetriNet_places other"
  using assms
  by (auto simp: PetriNet_merge_def Let_def
           split: result.splits option.splits prod.splits
           dest!: place_payload_merge_create [where q = q]
                  place_payload_merge_interconnect [where q = q])

lemmas merge_defs =
  PetriNet_merge_def to_sketch_def to_sketch_weight_pair_def listening_def Place_onChange_def
  Let_def

text \<open>
  C8. After a \<^verbatim>\<open>merge\<close> that returns normally, every Place that was in \<^verbatim>\<open>other\<close> has the
  token count and the change listener it had before the call, and is now in the
  collection of Places of \<^verbatim>\<open>this\<close>.
\<close>

theorem merge_keeps_tokens_and_listeners:
  assumes "PetriNet_merge this other interconnections h = (Returned (), this', other', h')"
    and "Some p \<in> set (PetriNet_places other)"
  shows "tokens h' p = tokens h p \<and>
         Place_on_change (place_at h' p) = Place_on_change (place_at h p) \<and>
         Some p \<in> set (PetriNet_places this')"
  using merge_place_payload [OF assms(1), of p] merge_moves_places [OF assms(1)] assms(2)
  by (simp add: tokens_def)

theorem merge_keeps_tokens_and_listeners_witness:
  "fst (PetriNet_merge (fst net1_built) (fst net2_built)
          [\<lparr>Sketch_id = ''T3'', Sketch_ingoing = [(''A'', 1)], Sketch_outgoing = [(''B'', 2)]\<rparr>]
          (snd net2_built)) = Returned () \<and>
   Some 1 \<in> set (PetriNet_places (fst net2_built)) \<and>
   tokens (snd (snd (snd (PetriNet_merge (fst net1_built) (fst net2_built)
          [\<lparr>Sketch_id = ''T3'', Sketch_ingoing = [(''A'', 1)], Sketch_outgoing = [(''B'', 2)]\<rparr>]
          (snd net2_built))))) 1 = 1 \<and>
   Place_on_change (place_at (snd (snd (snd (PetriNet_merge (fst net1_built) (fst net2_built)
          [\<lparr>Sketch_id = ''T3'', Sketch_ingoing = [(''A'', 1)], Sketch_outgoing = [(''B'', 2)]\<rparr>]
          (snd net2_built))))) 1) = Some 3"
proof -
  let ?m = "PetriNet_merge (fst net1_built) (fst net2_built)
          [\<lparr>Sketch_id = ''T3'', Sketch_ingoing = [(''A'', 1)], Sketch_outgoing = [(''B'', 2)]\<rparr>]
          (snd net2_built)"
  have returned: "fst ?m = Returned ()"
    by (simp add: net2_built_def net1_built_def build_defs merge_defs)
  then have run: "?m = (Returned (), fst (snd ?m), fst (snd (snd ?m)), snd (snd (snd ?m)))"
    by (metis prod.collapse)
  have moved: "Some 1 \<in> set (PetriNet_places (fst net2_built))"
    by (simp add: net2_built_def net1_built_def build_defs)
  have before: "tokens (snd net2_built) 1 = 1"
    "Place_on_change (place_at (snd net2_built) 1) = Some 3"
    by (simp_all add: net2_built_def net1_built_def build_defs listening_def Place_onChange_def
        tokens_def)
  from merge_keeps_tokens_and_listeners [OF run moved] returned moved before
  show ?thesis
    by simp
qed

text \<open>
  C4. The two nets of the merge tests, merged with the interconnection sketch \<open>T3\<close>
  of the test for invalid interconnections, whose Places D and C are in neither net. The call throws the invalid-argument
  error of \<^verbatim>\<open>addTransitionAcquired\<close>, but only after the absorbing steps have run:
  \<^verbatim>\<open>this\<close> has gained the Place B and a rebuilt T2, and \<^verbatim>\<open>other\<close> is left with a null
  pointer for its Place and no Transition.
\<close>

theorem merge_unknown_place_mutates_both_nets:
  "fst net1_built = \<lparr>PetriNet_places = [Some 0], PetriNet_transitions = [0]\<rparr> \<and>
   fst net2_built = \<lparr>PetriNet_places = [Some 1], PetriNet_transitions = [1]\<rparr> \<and>
   fst (PetriNet_merge (fst net1_built) (fst net2_built)
          [\<lparr>Sketch_id = ''T3'', Sketch_ingoing = [(''D'', 1)], Sketch_outgoing = [(''C'', 2)]\<rparr>]
          (snd net2_built)) = Thrown (invalid_argument ''Sketch contains invalid IDs'') \<and>
   fst (snd (PetriNet_merge (fst net1_built) (fst net2_built)
          [\<lparr>Sketch_id = ''T3'', Sketch_ingoing = [(''D'', 1)], Sketch_outgoing = [(''C'', 2)]\<rparr>]
          (snd net2_built))) = \<lparr>PetriNet_places = [Some 0, Some 1], PetriNet_transitions = [0, 2]\<rparr> \<and>
   fst (snd (snd (PetriNet_merge (fst net1_built) (fst net2_built)
          [\<lparr>Sketch_id = ''T3'', Sketch_ingoing = [(''D'', 1)], Sketch_outgoing = [(''C'', 2)]\<rparr>]
          (snd net2_built)))) = \<lparr>PetriNet_places = [None], PetriNet_transitions = []\<rparr>"
  by (simp add: net2_built_def net1_built_def build_defs merge_defs)

end
